theory Spec2Isabelle
  imports Main "HOL-Library.Word"
begin

section \<open>Data model\<close>

text \<open>
  The relay server of \<^verbatim>\<open>src/Server/server.cpp\<close>. The classes \<^verbatim>\<open>dataMessage\<close> and
  \<^verbatim>\<open>remoteConnection\<close> and the namespace \<^verbatim>\<open>constants\<close> are used by the server but are
  declared in headers that are not among the source files; the server reads them through
  their accessors only, so they appear here as records of exactly those accessors.
\<close>

text \<open>A \<^verbatim>\<open>boost::asio::ip::udp::endpoint\<close>: an address and a 16-bit port.\<close>

datatype endpoint = Endpoint (address: string) (port: "16 word")

text \<open>
  Modelled from the spec: the enumeration \<^verbatim>\<open>constants::MessageType\<close> (declared in the
  missing \<^verbatim>\<open>Common/constants.h\<close>). The six named values are the ones the switch of
  \<^verbatim>\<open>server::listenLoop\<close> lists; \<open>UNRECOGNIZED\<close> stands for every other value of the
  enumeration type, which reaches the \<^verbatim>\<open>default\<close> branch.
\<close>

datatype MessageType =
  CONNECTION | DISCONNECT | CHAT | PRIVATE_MESSAGE | SYNC_RIGHT | SYNC_LEFT | UNRECOGNIZED

text \<open>
  Modelled from the spec: the class \<^verbatim>\<open>dataMessage\<close> (missing \<^verbatim>\<open>Common/dataMessage.h\<close>),
  as the fields its accessors \<^verbatim>\<open>viewMessageType\<close>, \<^verbatim>\<open>viewSourceIdentifier\<close>,
  \<^verbatim>\<open>viewDestinationIdentifier\<close> and \<^verbatim>\<open>viewServerSyncPayload\<close> return, and the free
  text body of a chat or private message.
\<close>

record dataMessage =
  viewMessageType :: MessageType
  viewSourceIdentifier :: string
  viewDestinationIdentifier :: string
  viewBody :: string
  viewServerSyncPayload :: "string list"

text \<open>
  Modelled from the spec: the class \<^verbatim>\<open>remoteConnection\<close> (its header is missing), an
  identifier paired with a network address, read through \<^verbatim>\<open>viewIdentifier\<close> and
  \<^verbatim>\<open>viewEndpoint\<close>.
\<close>

record remoteConnection =
  viewIdentifier :: string
  viewEndpoint :: endpoint

text \<open>
  Modelled from the spec: the sync constructor of \<^verbatim>\<open>dataMessage\<close> (client list, this
  node's name, the target neighbour's name, the sync type); the message carries the
  identifiers of the given clients, in their order.
\<close>

definition syncMessage ::
  "remoteConnection list \<Rightarrow> string \<Rightarrow> string \<Rightarrow> MessageType \<Rightarrow> dataMessage" where
  "syncMessage clients source destination ty =
     \<lparr>viewMessageType = ty, viewSourceIdentifier = source,
      viewDestinationIdentifier = destination, viewBody = [],
      viewServerSyncPayload = map viewIdentifier clients\<rparr>"


text \<open>
  The members of \<^verbatim>\<open>class server\<close> that the three loops read and write. The two
  neighbour connections are owning pointers in the source: \<open>None\<close> is \<^verbatim>\<open>nullptr\<close>. The
  message queue is a \<^verbatim>\<open>std::queue\<close>: its front is the head of the list. The chain
  position is an \<^verbatim>\<open>int8_t\<close> in the constructor's signature; the members that hold it
  and the two neighbour positions are declared in the missing \<^verbatim>\<open>server.h\<close> and are given
  the same type here.
\<close>

record server =
  m_index :: "8 word"
  m_terminate :: bool
  m_connectedClients :: "remoteConnection list"
  m_leftAdjacentServerIndex :: "8 word"
  m_leftAdjacentServerConnection :: "remoteConnection option"
  m_leftAdjacentServerConnectedClients :: "string list"
  m_rightAdjacentServerIndex :: "8 word"
  m_rightAdjacentServerConnection :: "remoteConnection option"
  m_rightAdjacentServerConnectedClients :: "string list"
  m_messageQueue :: "dataMessage list"

text \<open>
  What a loop does to the outside world, in the order it does it: a call of
  \<^verbatim>\<open>send_to\<close> on the socket (successful or not), a line written to \<^verbatim>\<open>std::cout\<close>, and a
  call of the resolver for a host and a port.
\<close>

datatype event =
  SendTo endpoint dataMessage
| Print string
| Resolve string "16 word"

text \<open>
  The two ways a call leaves the program: dereferencing a null neighbour connection, and
  \<^verbatim>\<open>assert(false)\<close>.
\<close>

datatype error = NullPointerDereference | AssertionFailure

section \<open>Construction\<close>

text \<open>The constructor: no client, no neighbour connection, empty rosters, empty queue.\<close>

definition server_init :: "8 word \<Rightarrow> server" where
  "server_init inServerIndex =
     \<lparr>m_index = inServerIndex,
      m_terminate = False,
      m_connectedClients = [],
      m_leftAdjacentServerIndex = inServerIndex - 1,
      m_leftAdjacentServerConnection = None,
      m_leftAdjacentServerConnectedClients = [],
      m_rightAdjacentServerIndex = inServerIndex + 1,
      m_rightAdjacentServerConnection = None,
      m_rightAdjacentServerConnectedClients = [],
      m_messageQueue = []\<rparr>"

section \<open>Registry operations\<close>

definition addClientConnection :: "string \<Rightarrow> endpoint \<Rightarrow> server \<Rightarrow> server" where
  "addClientConnection inClientUsername inClientEndpoint s =
     s\<lparr>m_connectedClients := m_connectedClients s @
         [\<lparr>viewIdentifier = inClientUsername, viewEndpoint = inClientEndpoint\<rparr>]\<rparr>"

text \<open>
  The loop of \<^verbatim>\<open>server::removeClientConnection\<close> over the vector. Its body is
  \<^verbatim>\<open>if(currentClient->viewIdentifier() == inClientUsername) { erase(currentClient); } break;\<close>
  so the \<^verbatim>\<open>break\<close> is reached in the first iteration whether or not the identifier
  matched, and no later element is ever compared.
\<close>

fun removeClientConnection_loop :: "string \<Rightarrow> remoteConnection list \<Rightarrow> remoteConnection list" where
  "removeClientConnection_loop inClientUsername [] = []"
| "removeClientConnection_loop inClientUsername (currentClient # rest) =
     (if viewIdentifier currentClient = inClientUsername then rest
      else currentClient # rest)"

definition removeClientConnection :: "string \<Rightarrow> server \<Rightarrow> server" where
  "removeClientConnection inClientUsername s =
     s\<lparr>m_connectedClients :=
         removeClientConnection_loop inClientUsername (m_connectedClients s)\<rparr>"

definition addToMessageQueue :: "dataMessage \<Rightarrow> server \<Rightarrow> server" where
  "addToMessageQueue message s = s\<lparr>m_messageQueue := m_messageQueue s @ [message]\<rparr>"

definition receiveClientsFromAdjacentServers :: "dataMessage \<Rightarrow> server \<Rightarrow> error + server" where
  "receiveClientsFromAdjacentServers inSyncMessage s =
     (case viewMessageType inSyncMessage of
        SYNC_LEFT \<Rightarrow>
          Inr (s\<lparr>m_rightAdjacentServerConnectedClients := viewServerSyncPayload inSyncMessage\<rparr>)
      | SYNC_RIGHT \<Rightarrow>
          Inr (s\<lparr>m_leftAdjacentServerConnectedClients := viewServerSyncPayload inSyncMessage\<rparr>)
      | _ \<Rightarrow> Inl AssertionFailure)"

section \<open>The listen loop\<close>

text \<open>
  One iteration of \<^verbatim>\<open>server::listenLoop\<close> after the datagram has been received and
  decoded into \<open>message\<close> (the decoding constructor of \<^verbatim>\<open>dataMessage\<close> is not among the
  sources). The sync branch ends with \<^verbatim>\<open>continue\<close>, so a sync message is not queued;
  every other message is.
\<close>

definition listenLoop_iteration :: "dataMessage \<Rightarrow> endpoint \<Rightarrow> server \<Rightarrow> error + server" where
  "listenLoop_iteration message clientEndpoint s =
     (case viewMessageType message of
        CONNECTION \<Rightarrow>
          Inr (addToMessageQueue message
                 (addClientConnection (viewSourceIdentifier message) clientEndpoint s))
      | DISCONNECT \<Rightarrow>
          Inr (addToMessageQueue message
                 (removeClientConnection (viewSourceIdentifier message) s))
      | CHAT \<Rightarrow> Inr (addToMessageQueue message s)
      | PRIVATE_MESSAGE \<Rightarrow> Inr (addToMessageQueue message s)
      | SYNC_RIGHT \<Rightarrow> receiveClientsFromAdjacentServers message s
      | SYNC_LEFT \<Rightarrow> receiveClientsFromAdjacentServers message s
      | UNRECOGNIZED \<Rightarrow> Inl AssertionFailure)"

section \<open>The relay loop\<close>

text \<open>The broadcast loop: every connected client except those named like the sender.\<close>

fun relayUDP_broadcast :: "dataMessage \<Rightarrow> remoteConnection list \<Rightarrow> event list" where
  "relayUDP_broadcast inMessageToSend [] = []"
| "relayUDP_broadcast inMessageToSend (targetClient # rest) =
     (if viewIdentifier targetClient \<noteq> viewSourceIdentifier inMessageToSend
      then SendTo (viewEndpoint targetClient) inMessageToSend
             # relayUDP_broadcast inMessageToSend rest
      else relayUDP_broadcast inMessageToSend rest)"

text \<open>
  The first unicast loop: the first connected client named like the destination, at which
  the source sends and returns; \<open>None\<close> when the loop runs to its end.
\<close>

fun relayUDP_local :: "dataMessage \<Rightarrow> remoteConnection list \<Rightarrow> remoteConnection option" where
  "relayUDP_local inMessageToSend [] = None"
| "relayUDP_local inMessageToSend (targetClient # rest) =
     (if viewIdentifier targetClient = viewDestinationIdentifier inMessageToSend
      then Some targetClient
      else relayUDP_local inMessageToSend rest)"

text \<open>
  The roster loops: whether some identifier of the roster equals the destination, which is
  when the loop body sends and returns.
\<close>

fun relayUDP_roster :: "dataMessage \<Rightarrow> string list \<Rightarrow> bool" where
  "relayUDP_roster inMessageToSend [] = False"
| "relayUDP_roster inMessageToSend (targetClientIdentifier # rest) =
     (if targetClientIdentifier = viewDestinationIdentifier inMessageToSend then True
      else relayUDP_roster inMessageToSend rest)"

definition droppedNotice :: "dataMessage \<Rightarrow> string" where
  "droppedNotice inMessageToSend =
     ''Message dropped. Client '' @ [CHR 0x22] @ viewDestinationIdentifier inMessageToSend
       @ [CHR 0x22] @ '' was not found.''"

text \<open>
  \<^verbatim>\<open>server::relayUDP\<close>. Both roster searches are guarded by
  \<^verbatim>\<open>m_leftAdjacentServerConnection != nullptr\<close>, as the source has it; the send of the
  second one dereferences \<^verbatim>\<open>m_rightAdjacentServerConnection\<close>. Every \<^verbatim>\<open>send_to\<close> here
  takes an error code that is ignored, so a send cannot throw.
\<close>

definition relayUDP :: "server \<Rightarrow> dataMessage \<Rightarrow> error + event list" where
  "relayUDP s inMessageToSend =
     (if viewDestinationIdentifier inMessageToSend = ''broadcast''
      then Inr (relayUDP_broadcast inMessageToSend (m_connectedClients s))
      else
        (case relayUDP_local inMessageToSend (m_connectedClients s) of
           Some targetClient \<Rightarrow> Inr [SendTo (viewEndpoint targetClient) inMessageToSend]
         | None \<Rightarrow>
             if m_leftAdjacentServerConnection s \<noteq> None \<and>
                relayUDP_roster inMessageToSend (m_leftAdjacentServerConnectedClients s)
             then
               (case m_leftAdjacentServerConnection s of
                  None \<Rightarrow> Inl NullPointerDereference
                | Some leftConnection \<Rightarrow>
                    Inr [SendTo (viewEndpoint leftConnection) inMessageToSend])
             else if m_leftAdjacentServerConnection s \<noteq> None \<and>
                relayUDP_roster inMessageToSend (m_rightAdjacentServerConnectedClients s)
             then
               (case m_rightAdjacentServerConnection s of
                  None \<Rightarrow> Inl NullPointerDereference
                | Some rightConnection \<Rightarrow>
                    Inr [SendTo (viewEndpoint rightConnection) inMessageToSend])
             else Inr [Print (droppedNotice inMessageToSend)]))"

definition relayBluetooth :: "dataMessage \<Rightarrow> event list" where
  "relayBluetooth inMessageToSend = []"

text \<open>
  One iteration of the inner loop of \<^verbatim>\<open>server::relayLoop\<close>: the front of the queue is
  relayed over both protocols and popped. With an empty queue the loop body does not run.
\<close>

definition relayLoop_iteration :: "server \<Rightarrow> error + (server \<times> event list)" where
  "relayLoop_iteration s =
     (case m_messageQueue s of
        [] \<Rightarrow> Inr (s, [])
      | inMessageToSend # rest \<Rightarrow>
          (case relayUDP s inMessageToSend of
             Inl e \<Rightarrow> Inl e
           | Inr sent \<Rightarrow>
               Inr (s\<lparr>m_messageQueue := rest\<rparr>, sent @ relayBluetooth inMessageToSend)))"

section \<open>The neighbour synchronisation loop\<close>






section \<open>Example values\<close>

text \<open>
  Four clients, the connections to the three nodes of a chain, a chat or private message,
  and the state of the node in the middle of the chain with clients, both neighbour
  connections and both rosters; the name \<open>bob\<close> is a local client and also appears in
  both rosters.
\<close>

definition alice :: remoteConnection where
  "alice = \<lparr>viewIdentifier = ''alice'', viewEndpoint = Endpoint ''127.0.0.1'' 50001\<rparr>"

definition bob :: remoteConnection where
  "bob = \<lparr>viewIdentifier = ''bob'', viewEndpoint = Endpoint ''127.0.0.1'' 50002\<rparr>"

definition carol :: remoteConnection where
  "carol = \<lparr>viewIdentifier = ''carol'', viewEndpoint = Endpoint ''127.0.0.1'' 50003\<rparr>"

definition dave :: remoteConnection where
  "dave = \<lparr>viewIdentifier = ''dave'', viewEndpoint = Endpoint ''127.0.0.1'' 50004\<rparr>"

definition server0 :: remoteConnection where
  "server0 = \<lparr>viewIdentifier = ''server0'', viewEndpoint = Endpoint ''127.0.0.1'' 8080\<rparr>"

definition server1 :: remoteConnection where
  "server1 = \<lparr>viewIdentifier = ''server1'', viewEndpoint = Endpoint ''127.0.0.1'' 8081\<rparr>"

definition server2 :: remoteConnection where
  "server2 = \<lparr>viewIdentifier = ''server2'', viewEndpoint = Endpoint ''127.0.0.1'' 8082\<rparr>"

definition chat :: "string \<Rightarrow> string \<Rightarrow> dataMessage" where
  "chat source destination =
     \<lparr>viewMessageType = (if destination = ''broadcast'' then CHAT else PRIVATE_MESSAGE),
      viewSourceIdentifier = source, viewDestinationIdentifier = destination,
      viewBody = ''hello'', viewServerSyncPayload = []\<rparr>"

definition busyNode :: server where
  "busyNode =
     (server_init 1)
       \<lparr>m_connectedClients := [alice, bob, carol],
        m_leftAdjacentServerConnection := Some server0,
        m_leftAdjacentServerConnectedClients := [''dave'', ''bob''],
        m_rightAdjacentServerConnection := Some server2,
        m_rightAdjacentServerConnectedClients := [''erin'', ''bob'']\<rparr>"

text \<open>
  The node at the right end of the chain with one client of its own, and a connection
  message whose destination is a client of the middle node instead of \<open>broadcast\<close>.
\<close>

definition erin :: remoteConnection where
  "erin = \<lparr>viewIdentifier = ''erin'', viewEndpoint = Endpoint ''127.0.0.1'' 50005\<rparr>"

definition connectFrank :: dataMessage where
  "connectFrank =
     \<lparr>viewMessageType = CONNECTION, viewSourceIdentifier = ''frank'',
      viewDestinationIdentifier = ''bob'', viewBody = [], viewServerSyncPayload = []\<rparr>"

definition edgeNode :: server where
  "edgeNode =
     (server_init 2)
       \<lparr>m_connectedClients := [erin],
        m_leftAdjacentServerConnection := Some server1,
        m_leftAdjacentServerConnectedClients := [''alice'', ''bob'', ''carol'']\<rparr>"




section \<open>Properties of the loops\<close>

subsection \<open>Relaying and the client registry\<close>

text \<open>The three search loops of \<^verbatim>\<open>relayUDP\<close>, as list functions.\<close>

lemma relayUDP_broadcast_filter:
  "relayUDP_broadcast m cs =
     map (\<lambda>c. SendTo (viewEndpoint c) m)
       (filter (\<lambda>c. viewIdentifier c \<noteq> viewSourceIdentifier m) cs)"
  by (induction cs) simp_all

lemma relayUDP_local_find:
  "relayUDP_local m cs =
     List.find (\<lambda>c. viewIdentifier c = viewDestinationIdentifier m) cs"
  by (induction cs) simp_all

lemma relayUDP_local_None:
  "relayUDP_local m cs = None \<longleftrightarrow> viewDestinationIdentifier m \<notin> viewIdentifier ` set cs"
  by (induction cs) auto

lemma relayUDP_roster_mem:
  "relayUDP_roster m ids \<longleftrightarrow> viewDestinationIdentifier m \<in> set ids"
  by (induction ids) auto

text \<open>
  C1: the right roster is specified to be searched exactly when a right neighbour
  connection exists. On a node without a left connection, with a right connection and
  \<open>bob\<close> in the right roster, a private message to \<open>bob\<close> is dropped and nothing is sent.
  On a node with a left connection and no right connection the right roster is searched
  all the same, and a match dereferences the null right connection.
\<close>

theorem right_roster_guarded_by_left_connection:
  "relayUDP ((server_init 0)
               \<lparr>m_rightAdjacentServerConnection := Some server1,
                m_rightAdjacentServerConnectedClients := [''bob'']\<rparr>)
       (chat ''alice'' ''bob'') =
     Inr [Print (droppedNotice (chat ''alice'' ''bob''))] \<and>
   relayUDP ((server_init 1)
               \<lparr>m_leftAdjacentServerConnection := Some server0,
                m_rightAdjacentServerConnectedClients := [''bob'']\<rparr>)
       (chat ''alice'' ''bob'') =
     Inl NullPointerDereference"
  by (simp add: relayUDP_def server_init_def chat_def)

text \<open>
  C2: a Disconnect is specified to remove the first entry named like the source wherever
  it stands in the list. With the clients \<open>alice\<close>, \<open>bob\<close> connected in this
  order, a Disconnect from \<open>bob\<close> leaves both connected: the loop of
  \<^verbatim>\<open>removeClientConnection\<close> leaves at its first iteration.
\<close>

theorem disconnect_only_checks_first_entry:
  "listenLoop_iteration
       \<lparr>viewMessageType = DISCONNECT, viewSourceIdentifier = ''bob'',
        viewDestinationIdentifier = ''broadcast'', viewBody = [],
        viewServerSyncPayload = []\<rparr>
       (viewEndpoint bob) ((server_init 1)\<lparr>m_connectedClients := [alice, bob]\<rparr>) =
     Inr ((server_init 1)
            \<lparr>m_connectedClients := [alice, bob],
             m_messageQueue :=
               [\<lparr>viewMessageType = DISCONNECT, viewSourceIdentifier = ''bob'',
                 viewDestinationIdentifier = ''broadcast'', viewBody = [],
                 viewServerSyncPayload = []\<rparr>]\<rparr>)"
  by (simp add: listenLoop_iteration_def removeClientConnection_def addToMessageQueue_def
      server_init_def alice_def bob_def)

text \<open>
  C4: a received \<open>SYNC_LEFT\<close> message sets the right roster to the payload of the
  message, and a received \<open>SYNC_RIGHT\<close> message sets the left roster to it; the former
  contents are gone (an empty payload leaves an empty roster), nothing else of the server
  changes, and the message is not queued.
\<close>

theorem sync_replaces_roster:
  "(viewMessageType m = SYNC_LEFT \<longrightarrow>
      receiveClientsFromAdjacentServers m s =
        Inr (s\<lparr>m_rightAdjacentServerConnectedClients := viewServerSyncPayload m\<rparr>) \<and>
      listenLoop_iteration m clientEndpoint s =
        Inr (s\<lparr>m_rightAdjacentServerConnectedClients := viewServerSyncPayload m\<rparr>)) \<and>
   (viewMessageType m = SYNC_RIGHT \<longrightarrow>
      receiveClientsFromAdjacentServers m s =
        Inr (s\<lparr>m_leftAdjacentServerConnectedClients := viewServerSyncPayload m\<rparr>) \<and>
      listenLoop_iteration m clientEndpoint s =
        Inr (s\<lparr>m_leftAdjacentServerConnectedClients := viewServerSyncPayload m\<rparr>))"
  by (simp add: receiveClientsFromAdjacentServers_def listenLoop_iteration_def)

theorem sync_replaces_roster_witness:
  "viewMessageType (syncMessage [] ''server2'' ''server1'' SYNC_LEFT) = SYNC_LEFT \<and>
   viewMessageType (syncMessage [dave] ''server0'' ''server1'' SYNC_RIGHT) = SYNC_RIGHT \<and>
   listenLoop_iteration (syncMessage [] ''server2'' ''server1'' SYNC_LEFT)
       (viewEndpoint server2) busyNode =
     Inr (busyNode\<lparr>m_rightAdjacentServerConnectedClients := []\<rparr>) \<and>
   listenLoop_iteration (syncMessage [dave] ''server0'' ''server1'' SYNC_RIGHT)
       (viewEndpoint server0) busyNode =
     Inr (busyNode\<lparr>m_leftAdjacentServerConnectedClients := [''dave'']\<rparr>)"
  using sync_replaces_roster [where m = "syncMessage [] ''server2'' ''server1'' SYNC_LEFT"
      and s = busyNode and clientEndpoint = "viewEndpoint server2"]
    sync_replaces_roster [where m = "syncMessage [dave] ''server0'' ''server1'' SYNC_RIGHT"
      and s = busyNode and clientEndpoint = "viewEndpoint server0"]
  by (simp add: syncMessage_def dave_def)

text \<open>
  C5: when the destination is the literal \<open>broadcast\<close>, \<^verbatim>\<open>relayUDP\<close> sends the message
  to exactly the entries of \<open>m_connectedClients\<close> whose identifier differs from the
  source identifier, once each and in the order of the list, and does nothing else; no
  entry named like the sender is sent to.
\<close>

theorem broadcast_delivery:
  "viewDestinationIdentifier m = ''broadcast'' \<Longrightarrow>
   relayUDP s m =
     Inr (map (\<lambda>c. SendTo (viewEndpoint c) m)
            (filter (\<lambda>c. viewIdentifier c \<noteq> viewSourceIdentifier m) (m_connectedClients s)))"
  by (simp add: relayUDP_def relayUDP_broadcast_filter)

theorem broadcast_delivery_witness:
  "viewDestinationIdentifier (chat ''alice'' ''broadcast'') = ''broadcast'' \<and>
   relayUDP ((server_init 1)\<lparr>m_connectedClients := [alice, bob, carol]\<rparr>)
       (chat ''alice'' ''broadcast'') =
     Inr [SendTo (viewEndpoint bob) (chat ''alice'' ''broadcast''),
          SendTo (viewEndpoint carol) (chat ''alice'' ''broadcast'')]"
  using broadcast_delivery [where m = "chat ''alice'' ''broadcast''"
      and s = "(server_init 1)\<lparr>m_connectedClients := [alice, bob, carol]\<rparr>"]
  by (simp add: chat_def alice_def bob_def carol_def)

text \<open>
  C6: for a message that is not a broadcast and whose destination names a connected
  client, \<^verbatim>\<open>relayUDP\<close> performs exactly one send, to the endpoint of the first connected
  client with that identifier, whatever the rosters and the neighbour connections hold:
  no send to a neighbour happens.
\<close>

theorem unicast_local_precedence:
  assumes unicast: "viewDestinationIdentifier m \<noteq> ''broadcast''"
    and present: "viewDestinationIdentifier m \<in> viewIdentifier ` set (m_connectedClients s)"
  shows "\<exists>c. List.find (\<lambda>c. viewIdentifier c = viewDestinationIdentifier m)
                (m_connectedClients s) = Some c \<and>
             c \<in> set (m_connectedClients s) \<and>
             viewIdentifier c = viewDestinationIdentifier m \<and>
             relayUDP s m = Inr [SendTo (viewEndpoint c) m]"
proof -
  from present have "relayUDP_local m (m_connectedClients s) \<noteq> None"
    by (simp add: relayUDP_local_None)
  then obtain c where c: "relayUDP_local m (m_connectedClients s) = Some c"
    by blast
  then have found: "List.find (\<lambda>c. viewIdentifier c = viewDestinationIdentifier m)
                      (m_connectedClients s) = Some c"
    by (simp add: relayUDP_local_find)
  then have "c \<in> set (m_connectedClients s)"
    and "viewIdentifier c = viewDestinationIdentifier m"
    by (auto simp: find_Some_iff)
  moreover from unicast c have "relayUDP s m = Inr [SendTo (viewEndpoint c) m]"
    by (simp add: relayUDP_def)
  ultimately show ?thesis using found by blast
qed

theorem unicast_local_precedence_witness:
  "viewDestinationIdentifier (chat ''alice'' ''bob'') \<noteq> ''broadcast'' \<and>
   viewDestinationIdentifier (chat ''alice'' ''bob'')
     \<in> viewIdentifier ` set (m_connectedClients busyNode) \<and>
   ''bob'' \<in> set (m_leftAdjacentServerConnectedClients busyNode) \<and>
   ''bob'' \<in> set (m_rightAdjacentServerConnectedClients busyNode) \<and>
   relayUDP busyNode (chat ''alice'' ''bob'') =
     Inr [SendTo (viewEndpoint bob) (chat ''alice'' ''bob'')]"
  using unicast_local_precedence [where m = "chat ''alice'' ''bob''" and s = busyNode]
  by (simp add: chat_def busyNode_def server_init_def alice_def bob_def carol_def)

text \<open>
  C7: for a message that is not a broadcast and whose destination is in none of
  \<open>m_connectedClients\<close>, the left roster and the right roster, \<^verbatim>\<open>relayUDP\<close> performs no
  send; its only effect is one printed line, which says that the message was dropped and
  that the client of that name was not found. The relay loop then pops the message from
  the queue, and nothing is sent back to the sender.
\<close>

theorem unknown_destination_dropped:
  assumes unicast: "viewDestinationIdentifier m \<noteq> ''broadcast''"
    and notLocal: "viewDestinationIdentifier m \<notin> viewIdentifier ` set (m_connectedClients s)"
    and notLeft: "viewDestinationIdentifier m \<notin> set (m_leftAdjacentServerConnectedClients s)"
    and notRight: "viewDestinationIdentifier m \<notin> set (m_rightAdjacentServerConnectedClients s)"
  shows "relayUDP s m =
           Inr [Print (''Message dropped. Client '' @ [CHR 0x22] @ viewDestinationIdentifier m
                         @ [CHR 0x22] @ '' was not found.'')] \<and>
         relayLoop_iteration (s\<lparr>m_messageQueue := m # queue\<rparr>) =
           Inr (s\<lparr>m_messageQueue := queue\<rparr>,
                [Print (''Message dropped. Client '' @ [CHR 0x22] @ viewDestinationIdentifier m
                          @ [CHR 0x22] @ '' was not found.'')])"
proof -
  let ?notice = "''Message dropped. Client '' @ [CHR 0x22] @ viewDestinationIdentifier m
                   @ [CHR 0x22] @ '' was not found.''"
  from notLocal have none: "relayUDP_local m (m_connectedClients s) = None"
    by (simp add: relayUDP_local_None)
  from notLeft have left: "\<not> relayUDP_roster m (m_leftAdjacentServerConnectedClients s)"
    by (simp add: relayUDP_roster_mem)
  from notRight have right: "\<not> relayUDP_roster m (m_rightAdjacentServerConnectedClients s)"
    by (simp add: relayUDP_roster_mem)
  have relay: "relayUDP s' m = Inr [Print ?notice]"
    if "m_connectedClients s' = m_connectedClients s"
      and "m_leftAdjacentServerConnectedClients s' = m_leftAdjacentServerConnectedClients s"
      and "m_rightAdjacentServerConnectedClients s' = m_rightAdjacentServerConnectedClients s"
    for s'
    using that unicast none left right by (simp add: relayUDP_def droppedNotice_def)
  have "relayUDP s m = Inr [Print ?notice]"
    by (rule relay) simp_all
  moreover have "relayUDP (s\<lparr>m_messageQueue := m # queue\<rparr>) m = Inr [Print ?notice]"
    by (rule relay) simp_all
  then have "relayLoop_iteration (s\<lparr>m_messageQueue := m # queue\<rparr>) =
           Inr (s\<lparr>m_messageQueue := queue\<rparr>, [Print ?notice])"
    by (simp add: relayLoop_iteration_def relayBluetooth_def)
  ultimately show ?thesis by simp
qed

theorem unknown_destination_dropped_witness:
  "viewDestinationIdentifier (chat ''alice'' ''zoe'') \<noteq> ''broadcast'' \<and>
   viewDestinationIdentifier (chat ''alice'' ''zoe'')
     \<notin> viewIdentifier ` set (m_connectedClients busyNode) \<and>
   viewDestinationIdentifier (chat ''alice'' ''zoe'')
     \<notin> set (m_leftAdjacentServerConnectedClients busyNode) \<and>
   viewDestinationIdentifier (chat ''alice'' ''zoe'')
     \<notin> set (m_rightAdjacentServerConnectedClients busyNode) \<and>
   relayUDP busyNode (chat ''alice'' ''zoe'') =
     Inr [Print (''Message dropped. Client '' @ [CHR 0x22] @ ''zoe'' @ [CHR 0x22]
                   @ '' was not found.'')] \<and>
   relayLoop_iteration (busyNode\<lparr>m_messageQueue := [chat ''alice'' ''zoe'']\<rparr>) =
     Inr (busyNode\<lparr>m_messageQueue := []\<rparr>,
          [Print (''Message dropped. Client '' @ [CHR 0x22] @ ''zoe'' @ [CHR 0x22]
                    @ '' was not found.'')])"
  using unknown_destination_dropped [where m = "chat ''alice'' ''zoe''" and s = busyNode
      and queue = "[]"]
  by (simp add: chat_def busyNode_def server_init_def alice_def bob_def carol_def)

text \<open>
  C9, as far as it holds: for a broadcast, every send of \<^verbatim>\<open>relayUDP\<close> goes to the
  endpoint of an entry of \<open>m_connectedClients\<close>, and the outcome does not depend on the
  neighbour connections or on the two rosters: replacing all four by anything leaves it
  the same.
\<close>

theorem broadcast_stays_local:
  assumes "viewDestinationIdentifier m = ''broadcast''"
  shows "(\<exists>sent. relayUDP s m = Inr sent \<and>
            (\<forall>e \<in> set sent. \<exists>c \<in> set (m_connectedClients s). e = SendTo (viewEndpoint c) m)) \<and>
         relayUDP (s\<lparr>m_leftAdjacentServerConnection := leftConnection,
                      m_leftAdjacentServerConnectedClients := leftRoster,
                      m_rightAdjacentServerConnection := rightConnection,
                      m_rightAdjacentServerConnectedClients := rightRoster\<rparr>) m = relayUDP s m"
  using assms by (auto simp: relayUDP_def relayUDP_broadcast_filter)

theorem broadcast_stays_local_witness:
  "viewDestinationIdentifier (chat ''alice'' ''broadcast'') = ''broadcast'' \<and>
   relayUDP busyNode (chat ''alice'' ''broadcast'') =
     Inr [SendTo (viewEndpoint bob) (chat ''alice'' ''broadcast''),
          SendTo (viewEndpoint carol) (chat ''alice'' ''broadcast'')] \<and>
   relayUDP (busyNode\<lparr>m_leftAdjacentServerConnection := None,
                m_leftAdjacentServerConnectedClients := [],
                m_rightAdjacentServerConnection := None,
                m_rightAdjacentServerConnectedClients := [''carol'']\<rparr>)
       (chat ''alice'' ''broadcast'') =
     relayUDP busyNode (chat ''alice'' ''broadcast'')"
  using broadcast_stays_local [where m = "chat ''alice'' ''broadcast''" and s = busyNode
      and leftConnection = None and leftRoster = "[]" and rightConnection = None
      and rightRoster = "[''carol'']"]
  by (simp add: relayUDP_def chat_def busyNode_def server_init_def alice_def bob_def carol_def)

text \<open>
  C9 also says that a broadcast never goes to a neighbour server's endpoint and never
  reaches clients of other nodes. That part fails. A connection message of \<open>frank\<close> to
  the right-hand node, with destination \<open>bob\<close>, is forwarded by that node to the middle
  node; the listen loop of the middle node registers \<open>frank\<close> under the address the
  datagram came from, which is the right-hand node's. A broadcast on the middle node is
  then sent to the endpoint of its right neighbour connection, and the right-hand node
  relays it to its own clients.
\<close>

theorem broadcast_reaches_neighbour_endpoint:
  "listenLoop_iteration connectFrank (Endpoint ''127.0.0.1'' 50006) edgeNode =
     Inr (edgeNode
            \<lparr>m_connectedClients :=
               [erin, \<lparr>viewIdentifier = ''frank'', viewEndpoint = Endpoint ''127.0.0.1'' 50006\<rparr>],
             m_messageQueue := [connectFrank]\<rparr>) \<and>
   relayLoop_iteration
       (edgeNode
          \<lparr>m_connectedClients :=
             [erin, \<lparr>viewIdentifier = ''frank'', viewEndpoint = Endpoint ''127.0.0.1'' 50006\<rparr>],
           m_messageQueue := [connectFrank]\<rparr>) =
     Inr (edgeNode
            \<lparr>m_connectedClients :=
               [erin, \<lparr>viewIdentifier = ''frank'', viewEndpoint = Endpoint ''127.0.0.1'' 50006\<rparr>],
             m_messageQueue := []\<rparr>,
          [SendTo (viewEndpoint server1) connectFrank]) \<and>
   listenLoop_iteration connectFrank (viewEndpoint server2) busyNode =
     Inr (busyNode
            \<lparr>m_connectedClients :=
               [alice, bob, carol,
                \<lparr>viewIdentifier = ''frank'', viewEndpoint = viewEndpoint server2\<rparr>],
             m_messageQueue := [connectFrank]\<rparr>) \<and>
   m_rightAdjacentServerConnection
       (busyNode
          \<lparr>m_connectedClients :=
             [alice, bob, carol,
              \<lparr>viewIdentifier = ''frank'', viewEndpoint = viewEndpoint server2\<rparr>],
           m_messageQueue := [connectFrank]\<rparr>) = Some server2 \<and>
   viewDestinationIdentifier (chat ''alice'' ''broadcast'') = ''broadcast'' \<and>
   relayUDP
       (busyNode
          \<lparr>m_connectedClients :=
             [alice, bob, carol,
              \<lparr>viewIdentifier = ''frank'', viewEndpoint = viewEndpoint server2\<rparr>],
           m_messageQueue := [connectFrank]\<rparr>)
       (chat ''alice'' ''broadcast'') =
     Inr [SendTo (viewEndpoint bob) (chat ''alice'' ''broadcast''),
          SendTo (viewEndpoint carol) (chat ''alice'' ''broadcast''),
          SendTo (viewEndpoint server2) (chat ''alice'' ''broadcast'')] \<and>
   listenLoop_iteration (chat ''alice'' ''broadcast'') (viewEndpoint server1)
       (edgeNode
          \<lparr>m_connectedClients :=
             [erin, \<lparr>viewIdentifier = ''frank'', viewEndpoint = Endpoint ''127.0.0.1'' 50006\<rparr>],
           m_messageQueue := []\<rparr>) =
     Inr (edgeNode
            \<lparr>m_connectedClients :=
               [erin, \<lparr>viewIdentifier = ''frank'', viewEndpoint = Endpoint ''127.0.0.1'' 50006\<rparr>],
             m_messageQueue := [chat ''alice'' ''broadcast'']\<rparr>) \<and>
   relayLoop_iteration
       (edgeNode
          \<lparr>m_connectedClients :=
             [erin, \<lparr>viewIdentifier = ''frank'', viewEndpoint = Endpoint ''127.0.0.1'' 50006\<rparr>],
           m_messageQueue := [chat ''alice'' ''broadcast'']\<rparr>) =
     Inr (edgeNode
            \<lparr>m_connectedClients :=
               [erin, \<lparr>viewIdentifier = ''frank'', viewEndpoint = Endpoint ''127.0.0.1'' 50006\<rparr>],
             m_messageQueue := []\<rparr>,
          [SendTo (viewEndpoint erin) (chat ''alice'' ''broadcast''),
           SendTo (Endpoint ''127.0.0.1'' 50006) (chat ''alice'' ''broadcast'')])"
  by (simp add: listenLoop_iteration_def addToMessageQueue_def addClientConnection_def
      relayLoop_iteration_def relayBluetooth_def relayUDP_def connectFrank_def chat_def
      edgeNode_def busyNode_def server_init_def alice_def bob_def carol_def erin_def)

text \<open>
  C10: \<^verbatim>\<open>removeClientConnection\<close> removes at most one element of \<open>m_connectedClients\<close>;
  the elements that remain are the old ones, unchanged and in their order; the rosters,
  the neighbour connections and the message queue are as before (every member other than
  \<open>m_connectedClients\<close> is).
\<close>

theorem removeClientConnection_frame:
  "(\<exists>removed. length removed \<le> 1 \<and>
       m_connectedClients s = removed @ m_connectedClients (removeClientConnection u s)) \<and>
   removeClientConnection u s =
     s\<lparr>m_connectedClients := m_connectedClients (removeClientConnection u s)\<rparr> \<and>
   m_leftAdjacentServerConnectedClients (removeClientConnection u s) =
     m_leftAdjacentServerConnectedClients s \<and>
   m_rightAdjacentServerConnectedClients (removeClientConnection u s) =
     m_rightAdjacentServerConnectedClients s \<and>
   m_leftAdjacentServerConnection (removeClientConnection u s) =
     m_leftAdjacentServerConnection s \<and>
   m_rightAdjacentServerConnection (removeClientConnection u s) =
     m_rightAdjacentServerConnection s \<and>
   m_messageQueue (removeClientConnection u s) = m_messageQueue s"
proof -
  have "\<exists>removed. length removed \<le> 1 \<and> cs = removed @ removeClientConnection_loop u cs"
    for cs
  proof (cases cs)
    case Nil
    then show ?thesis by simp
  next
    case (Cons c rest)
    show ?thesis
    proof (cases "viewIdentifier c = u")
      case True
      with Cons have "length [c] \<le> 1 \<and> cs = [c] @ removeClientConnection_loop u cs"
        by simp
      then show ?thesis by blast
    next
      case False
      with Cons have "length ([]::remoteConnection list) \<le> 1 \<and>
          cs = [] @ removeClientConnection_loop u cs"
        by simp
      then show ?thesis by blast
    qed
  qed
  then show ?thesis by (simp add: removeClientConnection_def)
qed

subsection \<open>The neighbour slots\<close>


















text \<open>
  The other two loops do not write the neighbour connections or the neighbour positions:
  only the synchronisation loop does.
\<close>

lemma listenLoop_keeps_slots:
  "listenLoop_iteration message clientEndpoint s = Inr s' \<Longrightarrow>
   m_leftAdjacentServerConnection s' = m_leftAdjacentServerConnection s \<and>
   m_rightAdjacentServerConnection s' = m_rightAdjacentServerConnection s \<and>
   m_leftAdjacentServerIndex s' = m_leftAdjacentServerIndex s \<and>
   m_rightAdjacentServerIndex s' = m_rightAdjacentServerIndex s"
  by (cases "viewMessageType message")
    (auto simp: listenLoop_iteration_def receiveClientsFromAdjacentServers_def
      addToMessageQueue_def addClientConnection_def removeClientConnection_def)

lemma relayLoop_keeps_slots:
  "relayLoop_iteration s = Inr (s', events) \<Longrightarrow>
   m_leftAdjacentServerConnection s' = m_leftAdjacentServerConnection s \<and>
   m_rightAdjacentServerConnection s' = m_rightAdjacentServerConnection s \<and>
   m_leftAdjacentServerIndex s' = m_leftAdjacentServerIndex s \<and>
   m_rightAdjacentServerIndex s' = m_rightAdjacentServerIndex s"
  by (auto simp: relayLoop_iteration_def split: list.splits sum.splits)



end
